theory Spec2Isabelle
  imports Main "HOL-Library.Sublist"
begin

section \<open>JavaScript values used by the event views\<close>

text \<open>
  Strings are byte lists, the UTF-8 form of the source's strings; a text occurs in
  another one exactly when its bytes do.
  Integers (ids, counts, limits) are the integer-valued JavaScript numbers of the source;
  counts and limits start at 50 and 500 and are only ever increased, so they are naturals.
\<close>

text \<open>A value of type \<open>string | null\<close> is a \<open>string option\<close>, \<open>None\<close> being \<open>null\<close>.\<close>

definition truthy :: "string option \<Rightarrow> bool" where
  \<comment> \<open>JavaScript truthiness of a \<open>string | null\<close>: neither \<open>null\<close> nor the empty string\<close>
  "truthy v = (case v of None \<Rightarrow> False | Some s \<Rightarrow> s \<noteq> [])"

definition or_else :: "string option \<Rightarrow> string \<Rightarrow> string" where
  \<comment> \<open>\<open>v || d\<close> for a \<open>string | null\<close> on the left\<close>
  "or_else v d = (case v of None \<Rightarrow> d | Some s \<Rightarrow> if s = [] then d else s)"

definition render :: "string option \<Rightarrow> string" where
  \<comment> \<open>\<open>${v}\<close> in a template literal: \<open>null\<close> prints as the word null\<close>
  "render v = (case v of None \<Rightarrow> ''null'' | Some s \<Rightarrow> s)"

definition digit_char :: "nat \<Rightarrow> char" where
  "digit_char d = char_of (48 + d)"

fun digits :: "nat \<Rightarrow> string" where
  "digits n = (if n < 10 then [digit_char n] else digits (n div 10) @ [digit_char (n mod 10)])"

declare digits.simps [simp del]

definition number_toString :: "int \<Rightarrow> string" where
  \<comment> \<open>\<open>${n}\<close> for an integer-valued number: decimal digits, a minus sign when negative\<close>
  "number_toString n = (if n < 0 then CHR ''-'' # digits (nat (- n)) else digits (nat n))"

definition replaceAll :: "char \<Rightarrow> char \<Rightarrow> string \<Rightarrow> string" where
  \<comment> \<open>\<open>s.replaceAll(a, b)\<close> for one-character \<open>a\<close> and \<open>b\<close>\<close>
  "replaceAll a b s = map (\<lambda>c. if c = a then b else c) s"

text \<open>
  \<open>toLowerCase\<close> and \<open>trim\<close> are functions of the language, defined on all of
  Unicode. The functions of the component that call them take them as a parameter, and
  what is proved of these functions holds for every such pair.
\<close>

record js_string =
  toLowerCase :: "string \<Rightarrow> string"
  trim :: "string \<Rightarrow> string"

text \<open>
  On ASCII text the two functions are the following: \<open>A\<close> to \<open>Z\<close> become \<open>a\<close> to
  \<open>z\<close>, and the blanks stripped at both ends are space, tab, LF, VT, FF and CR. The
  examples, all of them ASCII, are run with this pair.
\<close>

definition lower_char :: "char \<Rightarrow> char" where
  "lower_char c =
     (let n = (of_char c :: nat) in if 65 \<le> n \<and> n \<le> 90 then char_of (n + 32) else c)"

definition ascii_toLowerCase :: "string \<Rightarrow> string" where
  "ascii_toLowerCase s = map lower_char s"

definition is_ws :: "char \<Rightarrow> bool" where
  "is_ws c = (c = CHR '' '' \<or> c = CHR 0x09 \<or> c = CHR 0x0A \<or> c = CHR 0x0B
              \<or> c = CHR 0x0C \<or> c = CHR 0x0D)"

definition ascii_trim :: "string \<Rightarrow> string" where
  "ascii_trim s = rev (dropWhile is_ws (rev (dropWhile is_ws s)))"

definition ascii :: js_string where
  "ascii = \<lparr>toLowerCase = ascii_toLowerCase, trim = ascii_trim\<rparr>"

fun str_includes :: "string \<Rightarrow> string \<Rightarrow> bool" where
  \<comment> \<open>\<open>s.includes(q)\<close>: \<open>q\<close> occurs in \<open>s\<close> at some position\<close>
  "str_includes [] q = (q = [])"
| "str_includes (c # s) q = (prefix q (c # s) \<or> str_includes s q)"


section \<open>models/event.ts\<close>

text \<open>
  \<open>EventType\<close> and \<open>EventSource\<close> are string enums. An event arrives as JSON, so its
  \<open>event_type\<close> is whatever string the server sent: the \<open>default\<close> branches of the
  mapping functions are there for the strings outside the enum.
\<close>

definition MEDIA_ADDED :: string where "MEDIA_ADDED = ''media_added''"
definition MONITOR_CHANGED :: string where "MONITOR_CHANGED = ''monitor_changed''"
definition YOUTUBE_ID_CHANGED :: string where "YOUTUBE_ID_CHANGED = ''youtube_id_changed''"
definition TRAILER_DETECTED :: string where "TRAILER_DETECTED = ''trailer_detected''"
definition TRAILER_DOWNLOADED :: string where "TRAILER_DOWNLOADED = ''trailer_downloaded''"
definition TRAILER_DELETED :: string where "TRAILER_DELETED = ''trailer_deleted''"
definition DOWNLOAD_SKIPPED :: string where "DOWNLOAD_SKIPPED = ''download_skipped''"

definition EventType_values :: "string list" where
  \<comment> \<open>\<open>Object.values(EventType)\<close>\<close>
  "EventType_values =
     [MEDIA_ADDED, MONITOR_CHANGED, YOUTUBE_ID_CHANGED, TRAILER_DETECTED,
      TRAILER_DOWNLOADED, TRAILER_DELETED, DOWNLOAD_SKIPPED]"

definition USER :: string where "USER = ''user''"
definition SYSTEM :: string where "SYSTEM = ''system''"

record EventRead =
  ev_id :: int
  media_id :: int
  event_type :: string
  source :: string
  source_detail :: string
  old_value :: "string option"
  new_value :: "string option"
  created_at :: string

section \<open>events.component.ts: the icon of an event type\<close>

definition getEventIcon :: "string \<Rightarrow> string" where
  "getEventIcon eventType =
     (if eventType = MEDIA_ADDED then ''add_circle''
      else if eventType = MONITOR_CHANGED then ''visibility''
      else if eventType = YOUTUBE_ID_CHANGED then ''link''
      else if eventType = TRAILER_DETECTED then ''search''
      else if eventType = TRAILER_DOWNLOADED then ''download''
      else if eventType = TRAILER_DELETED then ''delete''
      else if eventType = DOWNLOAD_SKIPPED then ''block''
      else ''info'')"


section \<open>media-events.component.ts: the description of an event on the media page\<close>

definition arrow :: string where
  \<comment> \<open>the right arrow U+2192 of the templates, in UTF-8\<close>
  "arrow = [CHR 0xE2, CHR 0x86, CHR 0x92]"

definition MediaEventsComponent_getEventDescription :: "EventRead \<Rightarrow> string" where
  "MediaEventsComponent_getEventDescription event =
     (if event_type event = MEDIA_ADDED then ''Media was added to the library''
      else if event_type event = MONITOR_CHANGED then
        (if old_value event = Some ''true'' \<and> new_value event = Some ''false''
           then ''Monitoring disabled''
         else if old_value event = Some ''false'' \<and> new_value event = Some ''true''
           then ''Monitoring enabled''
         else ''Monitor: '' @ render (old_value event) @ '' '' @ arrow @ '' ''
                @ render (new_value event))
      else if event_type event = YOUTUBE_ID_CHANGED then
        (if \<not> truthy (old_value event) \<and> truthy (new_value event)
           then ''YouTube ID set to '' @ render (new_value event)
         else if truthy (old_value event) \<and> \<not> truthy (new_value event)
           then ''YouTube ID cleared (was '' @ render (old_value event) @ '')''
         else ''YouTube ID: '' @ or_else (old_value event) ''none'' @ '' '' @ arrow @ '' ''
                @ or_else (new_value event) ''none'')
      else if event_type event = TRAILER_DETECTED then
        (if truthy (new_value event) then ''Trailer detected: '' @ render (new_value event)
         else ''Existing trailer detected'')
      else if event_type event = TRAILER_DOWNLOADED then
        (if truthy (new_value event) then ''Downloaded from '' @ render (new_value event)
         else ''Trailer downloaded'')
      else if event_type event = TRAILER_DELETED then
        (if truthy (new_value event) then ''Deleted: '' @ render (new_value event)
         else ''Trailer deleted'')
      else if event_type event = DOWNLOAD_SKIPPED then
        or_else (new_value event) ''Download was skipped''
      else [])"

text \<open>
  The mapping table of the specification, row by row. A value is \<open>set\<close> or \<open>present\<close>
  when it is a non-empty string and \<open>empty\<close> otherwise; \<open>{old}\<close> and \<open>{new}\<close> are the
  values as a template prints them; \<open>{old|none}\<close> is the value, or the word none when it
  is empty.
\<close>

definition spec_description :: "EventRead \<Rightarrow> string" where
  "spec_description event =
     (let old = old_value event; new = new_value event in
      if event_type event = ''media_added'' then ''Added from '' @ render new
      else if event_type event = ''monitor_changed'' then
        (if old = Some ''true'' \<and> new = Some ''false'' then ''Monitoring disabled''
         else if old = Some ''false'' \<and> new = Some ''true'' then ''Monitoring enabled''
         else ''Monitor: '' @ render old @ '' '' @ arrow @ '' '' @ render new)
      else if event_type event = ''youtube_id_changed'' then
        (if \<not> truthy old \<and> truthy new then ''YouTube ID set to '' @ render new
         else if truthy old \<and> \<not> truthy new then ''YouTube ID cleared (was '' @ render old @ '')''
         else ''YouTube ID: '' @ or_else old ''none'' @ '' '' @ arrow @ '' '' @ or_else new ''none'')
      else if event_type event = ''trailer_detected'' then
        (if truthy new then ''Trailer detected: '' @ render new else ''Existing trailer detected'')
      else if event_type event = ''trailer_downloaded'' then
        (if truthy new then ''Downloaded from '' @ render new else ''Trailer downloaded'')
      else if event_type event = ''trailer_deleted'' then
        (if truthy new then ''Deleted: '' @ render new else ''Trailer deleted'')
      else if event_type event = ''download_skipped'' then
        (if truthy new then render new else ''Download was skipped'')
      else [])"


section \<open>events.component.ts: the state of the events page\<close>

text \<open>
  The component's signals and its form control are the fields of a record.
  \<open>allEvents\<close> is the value of the HTTP resource as the functions read it (the list
  the server returned, \<open>[]\<close> before the first answer); the resource's own reaction to a
  changed request parameter, a new request and a new value, is not part of the functions
  below. \<open>combinedMedia\<close> is the media list of the media service, of which only \<open>id\<close>
  and \<open>title\<close> are read.
\<close>

record media =
  mid :: int
  title :: string

record EventsComponent =
  searchForm :: "string option"
  displayCount :: nat
  allEvents :: "EventRead list"
  searchQuery :: string
  selectedEventType :: string
  selectedEventSource :: string
  limit :: nat
  combinedMedia :: "media list"

definition initial :: "media list \<Rightarrow> EventsComponent" where
  \<comment> \<open>the field initialisers of the class\<close>
  "initial ms =
     \<lparr>searchForm = None, displayCount = 50, allEvents = [], searchQuery = [],
      selectedEventType = ''all'', selectedEventSource = ''all'', limit = 500,
      combinedMedia = ms\<rparr>"

datatype param_value = Undefined | Null | Num int | Str string

definition allEvents_params :: "EventsComponent \<Rightarrow> (string \<times> param_value) list" where
  \<comment> \<open>the \<open>params\<close> object of the resource's request, keys in insertion order\<close>
  "allEvents_params s =
     [(''limit'', Num (int (limit s)))]
     @ (if selectedEventType s \<noteq> ''all''
        then [(''event_type'', Str (selectedEventType s))] else [])
     @ (if selectedEventSource s \<noteq> ''all''
        then [(''event_source'', Str (selectedEventSource s))] else [])"

definition mediaTitlesMap :: "EventsComponent \<Rightarrow> (int \<rightharpoonup> string)" where
  "mediaTitlesMap s =
     foldl (\<lambda>titlesMap m. titlesMap(mid m \<mapsto> title m)) Map.empty (combinedMedia s)"

definition getMediaTitle :: "EventsComponent \<Rightarrow> int \<Rightarrow> string" where
  "getMediaTitle s mediaId =
     or_else (mediaTitlesMap s mediaId) (''Media #'' @ number_toString mediaId)"

definition matchesQuery ::
  "js_string \<Rightarrow> (int \<rightharpoonup> string) \<Rightarrow> string \<Rightarrow> EventRead \<Rightarrow> bool" where
  \<comment> \<open>the predicate handed to \<open>events.filter\<close>\<close>
  "matchesQuery js titlesMap query event =
     (str_includes (toLowerCase js (or_else (Some (source_detail event)) [])) query
      \<or> str_includes (toLowerCase js (or_else (old_value event) [])) query
      \<or> str_includes (toLowerCase js (or_else (new_value event) [])) query
      \<or> str_includes
           (replaceAll (CHR ''_'') (CHR '' '') (toLowerCase js (event_type event))) query
      \<or> str_includes (toLowerCase js (or_else (titlesMap (media_id event)) [])) query)"

definition filteredEvents :: "js_string \<Rightarrow> EventsComponent \<Rightarrow> EventRead list" where
  "filteredEvents js s =
     (let query = toLowerCase js (searchQuery s);
          events = allEvents s;
          events = (if query \<noteq> [] \<and> length (trim js query) > 0
                    then filter (matchesQuery js (mediaTitlesMap s) query) events
                    else events)
      in take (displayCount s) events)"

text \<open>
  \<open>resetDisplayCount\<close> is an effect that reads the three filter signals and sets
  \<open>displayCount\<close>: Angular runs it again after any of the three has been set to a
  different value. A setter of the model is the signal's \<open>set\<close> followed by that run.
\<close>

definition resetDisplayCount :: "EventsComponent \<Rightarrow> EventsComponent" where
  "resetDisplayCount s = s\<lparr>displayCount := 50\<rparr>"

definition set_searchQuery :: "string \<Rightarrow> EventsComponent \<Rightarrow> EventsComponent" where
  "set_searchQuery v s =
     (if searchQuery s = v then s else resetDisplayCount (s\<lparr>searchQuery := v\<rparr>))"

definition set_selectedEventType :: "string \<Rightarrow> EventsComponent \<Rightarrow> EventsComponent" where
  "set_selectedEventType v s =
     (if selectedEventType s = v then s else resetDisplayCount (s\<lparr>selectedEventType := v\<rparr>))"

definition set_selectedEventSource :: "string \<Rightarrow> EventsComponent \<Rightarrow> EventsComponent" where
  "set_selectedEventSource v s =
     (if selectedEventSource s = v then s
      else resetDisplayCount (s\<lparr>selectedEventSource := v\<rparr>))"

definition queryParams_next :: "(string \<rightharpoonup> string) \<Rightarrow> EventsComponent \<Rightarrow> EventsComponent" where
  \<comment> \<open>the subscriber of \<open>route.queryParams\<close> in \<open>ngOnInit\<close>, run on one parameter map\<close>
  "queryParams_next params s =
     (let eventType = params ''type'';
          s1 = (case eventType of
                  None \<Rightarrow> s
                | Some t \<Rightarrow> if t \<noteq> [] \<and> t \<in> set EventType_values
                            then set_selectedEventType t s else s);
          mediaId = params ''media_id''
      in case mediaId of
           None \<Rightarrow> s1
         | Some m \<Rightarrow> if m \<noteq> [] then set_searchQuery m (s1\<lparr>searchForm := Some m\<rparr>) else s1)"

definition valueChanges_next :: "string option \<Rightarrow> EventsComponent \<Rightarrow> EventsComponent" where
  \<comment> \<open>the subscriber of \<open>searchForm.valueChanges\<close>: \<open>searchQuery.set(value || '')\<close>\<close>
  "valueChanges_next v s = set_searchQuery (or_else v []) s"

definition loadMore :: "EventsComponent \<Rightarrow> EventsComponent" where
  "loadMore s =
     (let currentCount = displayCount s;
          events = allEvents s
      in if currentCount \<ge> length events
         then (if length events \<ge> limit s then s\<lparr>limit := limit s + 500\<rparr> else s)
         else s\<lparr>displayCount := currentCount + 30\<rparr>)"


section \<open>events.service.ts\<close>

text \<open>
  A request is the URL and the \<open>params\<close> option handed to \<open>HttpClient.get\<close>;
  \<open>None\<close> is \<open>undefined\<close>. \<open>apiUrl\<close> comes from the environment file.
\<close>

record request =
  url :: string
  params :: "(string \<times> param_value) list option"

definition eventsUrl :: "string \<Rightarrow> string" where
  "eventsUrl apiUrl = apiUrl @ ''events/''"

definition filterParams ::
  "(string \<times> param_value) list option \<Rightarrow> (string \<times> param_value) list option" where
  "filterParams ps =
     (case ps of
        None \<Rightarrow> None
      | Some p \<Rightarrow> Some (filter (\<lambda>(k, v). v \<noteq> Undefined \<and> v \<noteq> Null) p))"

definition getEvents :: "string \<Rightarrow> (string \<times> param_value) list option \<Rightarrow> request" where
  "getEvents apiUrl ps = \<lparr>url = eventsUrl apiUrl, params = filterParams ps\<rparr>"

definition getEventsByMediaId ::
  "string \<Rightarrow> int \<Rightarrow> (string \<times> param_value) list option \<Rightarrow> request" where
  "getEventsByMediaId apiUrl mediaId ps =
     \<lparr>url = eventsUrl apiUrl @ ''media/'' @ number_toString mediaId, params = filterParams ps\<rparr>"

text \<open>
  The file \<open>frontend/src/app/services/events.service.ts\<close> holds the same two operations
  without \<open>filterParams\<close>: the record is handed to \<open>HttpClient.get\<close> as it came.
\<close>

definition frontend_getEvents :: "string \<Rightarrow> (string \<times> param_value) list option \<Rightarrow> request" where
  "frontend_getEvents apiUrl ps = \<lparr>url = eventsUrl apiUrl, params = ps\<rparr>"

definition frontend_getEventsByMediaId ::
  "string \<Rightarrow> int \<Rightarrow> (string \<times> param_value) list option \<Rightarrow> request" where
  "frontend_getEventsByMediaId apiUrl mediaId ps =
     \<lparr>url = eventsUrl apiUrl @ ''media/'' @ number_toString mediaId, params = ps\<rparr>"


section \<open>The specification's wording, and the inputs of the examples\<close>

text \<open>
  The retention rule as the specification words it: the query is trimmed and lower-cased,
  an empty result retains every event, and otherwise the query has to occur in one of the
  five searchable texts, lower-cased, the last being the resolved title of the owning
  entity (the title of the map, or the placeholder).
\<close>

definition spec_retained :: "js_string \<Rightarrow> EventsComponent \<Rightarrow> EventRead \<Rightarrow> bool" where
  "spec_retained js s e =
     (let q = toLowerCase js (trim js (searchQuery s)) in
      q = [] \<or>
      list_ex (sublist q)
        [toLowerCase js (source_detail e),
         toLowerCase js (or_else (old_value e) []),
         toLowerCase js (or_else (new_value e) []),
         replaceAll (CHR ''_'') (CHR '' '') (toLowerCase js (event_type e)),
         toLowerCase js (getMediaTitle s (media_id e))])"

text \<open>
  The retention rule of the code, in the same words: the query is lower-cased but not
  trimmed, a query that is empty or trims to the empty text retains every event, and the
  fifth text is the title bound in the map, or the empty text.
\<close>

definition retained :: "js_string \<Rightarrow> EventsComponent \<Rightarrow> EventRead \<Rightarrow> bool" where
  "retained js s e =
     (let q = toLowerCase js (searchQuery s) in
      q = [] \<or> trim js q = [] \<or>
      list_ex (sublist q)
        [toLowerCase js (source_detail e),
         toLowerCase js (or_else (old_value e) []),
         toLowerCase js (or_else (new_value e) []),
         replaceAll (CHR ''_'') (CHR '' '') (toLowerCase js (event_type e)),
         toLowerCase js (or_else (mediaTitlesMap s (media_id e)) [])])"

definition spec_numeric :: "string \<Rightarrow> bool" where
  \<comment> \<open>a numeric id: a non-empty run of decimal digits\<close>
  "spec_numeric v = (v \<noteq> [] \<and> list_all (\<lambda>c. c \<in> set ''0123456789'') v)"

definition sample_event :: "int \<Rightarrow> string \<Rightarrow> string option \<Rightarrow> string option \<Rightarrow> EventRead" where
  \<comment> \<open>an event of media item 7, logged by the connection refresh\<close>
  "sample_event i t old new =
     \<lparr>ev_id = i, media_id = 7, event_type = t, source = SYSTEM,
      source_detail = ''ConnectionRefresh'', old_value = old, new_value = new,
      created_at = ''2025-01-01T00:00:00''\<rparr>"

definition full_window :: EventsComponent where
  \<comment> \<open>the first page of 50 shown, 500 events fetched under the limit of 500,
      and a query that none of them matches\<close>
  "full_window =
     (initial [])\<lparr>allEvents := map (\<lambda>i. sample_event (int i) MEDIA_ADDED None (Some ''Radarr''))
                                  [0..<500],
                  searchQuery := ''zzz''\<rparr>"

definition padded_query :: EventsComponent where
  \<comment> \<open>one fetched event, and the query \<open>trailer\<close> typed with a space in front\<close>
  "padded_query =
     (initial [])\<lparr>allEvents := [sample_event 1 TRAILER_DELETED None (Some ''user_request'')],
                  searchQuery := '' trailer''\<rparr>"

definition placeholder_query :: EventsComponent where
  \<comment> \<open>one fetched event of a media item without a title, and a query for its placeholder\<close>
  "placeholder_query =
     (initial [])\<lparr>allEvents := [sample_event 1 TRAILER_DELETED None (Some ''user_request'')],
                  searchQuery := ''media #7''\<rparr>"

definition titled :: EventsComponent where
  \<comment> \<open>media 1 has a title, media 2 has the empty title, media 3 is unknown\<close>
  "titled = initial [\<lparr>mid = 1, title = ''Dune''\<rparr>, \<lparr>mid = 2, title = []\<rparr>]"


section \<open>Results\<close>

lemmas EventType_defs =
  MEDIA_ADDED_def MONITOR_CHANGED_def YOUTUBE_ID_CHANGED_def TRAILER_DETECTED_def
  TRAILER_DOWNLOADED_def TRAILER_DELETED_def DOWNLOAD_SKIPPED_def

subsection \<open>Strings\<close>

lemma str_includes_sublist: "str_includes s q \<longleftrightarrow> sublist q s"
  by (induction s) (auto simp: sublist_Cons_right)

lemma or_else_Some_Nil: "or_else (Some x) [] = x"
  by (simp add: or_else_def)

lemma matchesQuery_sublist:
  "matchesQuery js (mediaTitlesMap s) (toLowerCase js (searchQuery s)) e \<longleftrightarrow>
     list_ex (sublist (toLowerCase js (searchQuery s)))
       [toLowerCase js (source_detail e),
        toLowerCase js (or_else (old_value e) []),
        toLowerCase js (or_else (new_value e) []),
        replaceAll (CHR ''_'') (CHR '' '') (toLowerCase js (event_type e)),
        toLowerCase js (or_else (mediaTitlesMap s (media_id e)) [])]"
  by (simp add: matchesQuery_def str_includes_sublist or_else_Some_Nil)

lemma filteredEvents_filter:
  "filteredEvents js s = take (displayCount s) (filter (retained js s) (allEvents s))"
proof (cases "toLowerCase js (searchQuery s) = [] \<or> trim js (toLowerCase js (searchQuery s)) = []")
  case True
  then have "retained js s e" for e
    by (auto simp: retained_def Let_def)
  then have "filter (retained js s) (allEvents s) = allEvents s"
    by simp
  with True show ?thesis
    by (auto simp: filteredEvents_def Let_def)
next
  case False
  then have "retained js s e
      = matchesQuery js (mediaTitlesMap s) (toLowerCase js (searchQuery s)) e" for e
    unfolding matchesQuery_sublist by (simp add: retained_def Let_def)
  then have "retained js s = matchesQuery js (mediaTitlesMap s) (toLowerCase js (searchQuery s))"
    by (intro ext)
  with False show ?thesis
    by (auto simp: filteredEvents_def Let_def)
qed

text \<open>
  With the ASCII pair, a query is empty or trims to the empty text exactly when it
  consists of blanks only.
\<close>

lemma char_eq_nat: "c = d \<longleftrightarrow> (of_char c :: nat) = of_char d"
  by simp

lemma is_ws_nat: "is_ws c \<longleftrightarrow> (of_char c :: nat) \<in> {32, 9, 10, 11, 12, 13}"
  unfolding is_ws_def by (auto simp: char_eq_nat simp del: of_char_eq_iff)

lemma lower_char_nat:
  "(of_char (lower_char c) :: nat) =
     (if 65 \<le> (of_char c :: nat) \<and> (of_char c :: nat) \<le> 90 then of_char c + 32 else of_char c)"
  by (auto simp: lower_char_def Let_def)

lemma lower_char_ws: "is_ws (lower_char c) \<longleftrightarrow> is_ws c"
  by (auto simp: is_ws_nat lower_char_nat)

lemma dropWhile_all: "(\<forall>c\<in>set (dropWhile P q). P c) \<longleftrightarrow> (\<forall>c\<in>set q. P c)"
proof
  assume a: "\<forall>c\<in>set (dropWhile P q). P c"
  have "dropWhile P q = []"
  proof (rule ccontr)
    assume n: "dropWhile P q \<noteq> []"
    then have "hd (dropWhile P q) \<in> set (dropWhile P q)" by simp
    with a have "P (hd (dropWhile P q))" by blast
    with hd_dropWhile [OF n] show False by blast
  qed
  then show "\<forall>c\<in>set q. P c" by (simp add: dropWhile_eq_Nil_conv)
next
  assume "\<forall>c\<in>set q. P c"
  then show "\<forall>c\<in>set (dropWhile P q). P c"
    by (blast dest: set_dropWhileD)
qed

lemma ascii_trim_Nil_iff: "ascii_trim q = [] \<longleftrightarrow> list_all is_ws q"
proof -
  have "ascii_trim q = [] \<longleftrightarrow> (\<forall>c\<in>set (rev (dropWhile is_ws q)). is_ws c)"
    by (simp add: ascii_trim_def dropWhile_eq_Nil_conv)
  also have "\<dots> \<longleftrightarrow> (\<forall>c\<in>set q. is_ws c)"
    by (simp add: dropWhile_all)
  finally show ?thesis by (simp add: list_all_iff)
qed

lemma ascii_blank_query:
  "toLowerCase ascii q = [] \<or> trim ascii (toLowerCase ascii q) = [] \<longleftrightarrow> list_all is_ws q"
proof -
  have "ascii_trim (ascii_toLowerCase q) = [] \<longleftrightarrow> list_all is_ws q"
    by (simp add: ascii_trim_Nil_iff ascii_toLowerCase_def list_all_iff lower_char_ws)
  moreover have "ascii_toLowerCase q = [] \<Longrightarrow> list_all is_ws q"
    by (simp add: ascii_toLowerCase_def)
  ultimately show ?thesis
    by (auto simp: ascii_def)
qed

lemma subseq_take_filter: "subseq (take n (filter P xs)) xs"
proof -
  have "subseq (take n (filter P xs)) (filter P xs)"
    by (rule prefix_imp_subseq) (rule take_is_prefix)
  then show ?thesis
    by (rule subseq_order.trans) (rule subseq_filter_left)
qed


subsection \<open>Load more\<close>

lemma full_window_facts:
  "displayCount full_window = 50" "limit full_window = 500" "length (allEvents full_window) = 500"
  by (simp_all add: full_window_def initial_def)

lemma full_window_unmatched:
  "\<not> retained ascii full_window e" if "e \<in> set (allEvents full_window)"
  using that
  by (auto simp: full_window_def initial_def retained_def Let_def sample_event_def ascii_def
      ascii_toLowerCase_def ascii_trim_def lower_char_def is_ws_def or_else_def replaceAll_def
      mediaTitlesMap_def sublist_code EventType_defs)

text \<open>
  C1, as the code has it. \<open>loadMore\<close> compares \<open>displayCount\<close> with the number of
  fetched events, before the text query and the truncation. When \<open>displayCount\<close> covers
  the fetched events and their number has reached the fetch limit, the limit grows by 500
  and \<open>displayCount\<close> stays; when it covers them and the limit has not been reached,
  nothing changes; when it does not cover them, and so in particular when it does not
  cover the events that the query retains, \<open>displayCount\<close> grows by 30 and the limit
  stays. No other field changes.
\<close>

theorem loadMore_cases:
  "(length (allEvents s) \<le> displayCount s \<and> limit s \<le> length (allEvents s)
      \<longrightarrow> loadMore s = s\<lparr>limit := limit s + 500\<rparr>)
   \<and> (length (allEvents s) \<le> displayCount s \<and> length (allEvents s) < limit s
      \<longrightarrow> loadMore s = s)
   \<and> (displayCount s < length (allEvents s)
      \<longrightarrow> loadMore s = s\<lparr>displayCount := displayCount s + 30\<rparr>)
   \<and> (displayCount s < length (filter (retained js s) (allEvents s))
      \<longrightarrow> loadMore s = s\<lparr>displayCount := displayCount s + 30\<rparr>)"
proof -
  have "displayCount s < length (allEvents s)"
    if "displayCount s < length (filter (retained js s) (allEvents s))"
    using that length_filter_le [of "retained js s" "allEvents s"] by linarith
  then show ?thesis
    by (auto simp: loadMore_def Let_def)
qed

theorem loadMore_cases_witness:
  "loadMore full_window = full_window\<lparr>displayCount := 80\<rparr>
   \<and> loadMore (full_window\<lparr>displayCount := 500\<rparr>) = full_window\<lparr>displayCount := 500, limit := 1000\<rparr>
   \<and> loadMore (initial []) = initial []"
  using loadMore_cases [of full_window] loadMore_cases [of "full_window\<lparr>displayCount := 500\<rparr>"]
    loadMore_cases [of "initial []"]
  by (simp add: full_window_facts) (simp add: initial_def)

text \<open>
  C1 as the claim states it fails. 500 events are fetched under the limit of 500, the
  query retains none of them and 50 are to be displayed, so the display count covers
  all filtered events and the fetched count has reached the limit: \<open>loadMore\<close> leaves
  the limit at 500 and raises \<open>displayCount\<close> to 80.
\<close>

theorem loadMore_claim_counterexample:
  "length (filteredEvents ascii full_window) \<le> displayCount full_window
   \<and> filter (retained ascii full_window) (allEvents full_window) = []
   \<and> limit full_window \<le> length (allEvents full_window)
   \<and> displayCount full_window = 50 \<and> limit full_window = 500
   \<and> displayCount (loadMore full_window) = 80
   \<and> limit (loadMore full_window) = 500"
proof -
  have "filter (retained ascii full_window) (allEvents full_window) = []"
    using full_window_unmatched by (simp add: filter_empty_conv)
  moreover have "loadMore full_window = full_window\<lparr>displayCount := 80\<rparr>"
    by (simp add: loadMore_def Let_def full_window_facts)
  moreover have "length (filteredEvents ascii full_window) \<le> displayCount full_window"
    by (simp add: filteredEvents_filter)
  ultimately show ?thesis
    by (simp add: full_window_facts)
qed


subsection \<open>The filtered list\<close>

text \<open>
  C2, as the code has it. \<open>filteredEvents\<close> is a subsequence of \<open>allEvents\<close> of at
  most \<open>displayCount\<close> elements: the first \<open>displayCount\<close> of the retained events.
  An event is retained when the lower-cased query is empty or trims to the empty text
  (a query of white space only), or when the lower-cased query, as typed and not
  trimmed, occurs in the lower-cased \<open>source_detail\<close>, \<open>old_value\<close>, \<open>new_value\<close>,
  \<open>event_type\<close> with underscores as spaces, or the lower-cased title that the map binds
  to the owning entity (no text when there is none: the placeholder is not searched).
  When \<open>displayCount\<close> covers the fetched list, the events shown are exactly the
  retained ones. This holds whatever the language's \<open>toLowerCase\<close> and \<open>trim\<close> are.
\<close>

theorem filteredEvents_retained:
  "subseq (filteredEvents js s) (allEvents s)
   \<and> length (filteredEvents js s) \<le> displayCount s
   \<and> filteredEvents js s = take (displayCount s) (filter (retained js s) (allEvents s))
   \<and> (length (allEvents s) \<le> displayCount s \<longrightarrow>
        (\<forall>e. e \<in> set (filteredEvents js s) \<longleftrightarrow> e \<in> set (allEvents s) \<and> retained js s e))"
proof -
  have eq: "filteredEvents js s = take (displayCount s) (filter (retained js s) (allEvents s))"
    by (rule filteredEvents_filter)
  have sub: "subseq (filteredEvents js s) (allEvents s)"
    unfolding eq by (rule subseq_take_filter)
  have len: "length (filteredEvents js s) \<le> displayCount s"
    unfolding eq by simp
  have mem: "e \<in> set (filteredEvents js s) \<longleftrightarrow> e \<in> set (allEvents s) \<and> retained js s e"
    if "length (allEvents s) \<le> displayCount s" for e
  proof -
    have "length (filter (retained js s) (allEvents s)) \<le> displayCount s"
      using that length_filter_le [of "retained js s" "allEvents s"] by linarith
    then show ?thesis unfolding eq by simp
  qed
  show ?thesis
    using sub len eq mem by blast
qed

theorem filteredEvents_retained_witness:
  "length (allEvents padded_query) \<le> displayCount padded_query
   \<and> (\<forall>e. e \<in> set (filteredEvents ascii padded_query)
          \<longleftrightarrow> e \<in> set (allEvents padded_query) \<and> retained ascii padded_query e)"
proof -
  have "length (allEvents padded_query) \<le> displayCount padded_query"
    by (simp add: padded_query_def initial_def)
  with filteredEvents_retained [of ascii padded_query] show ?thesis
    by blast
qed

text \<open>
  C2 as the claim states it fails: with the query \<open>trailer\<close> typed after a space, the
  trimmed query occurs in \<open>trailer deleted\<close>, the event is fetched and within the
  display count, and the code does not show it.
\<close>

theorem filteredEvents_claim_counterexample:
  "length (allEvents padded_query) \<le> displayCount padded_query
   \<and> spec_retained ascii padded_query
        (sample_event 1 TRAILER_DELETED None (Some ''user_request''))
   \<and> sample_event 1 TRAILER_DELETED None (Some ''user_request'') \<in> set (allEvents padded_query)
   \<and> sample_event 1 TRAILER_DELETED None (Some ''user_request'')
        \<notin> set (filteredEvents ascii padded_query)"
  by (simp add: padded_query_def initial_def filteredEvents_def spec_retained_def Let_def
      sample_event_def ascii_def ascii_toLowerCase_def ascii_trim_def is_ws_def lower_char_def
      or_else_def replaceAll_def matchesQuery_def mediaTitlesMap_def sublist_code
      EventType_defs getMediaTitle_def SYSTEM_def)

text \<open>
  The placeholder of an untitled media item is not searched either: the specification's
  rule retains the event for the query \<open>media #7\<close>, the code does not show it.
\<close>

lemma filteredEvents_placeholder_not_searched:
  "spec_retained ascii placeholder_query
     (sample_event 1 TRAILER_DELETED None (Some ''user_request''))
   \<and> filteredEvents ascii placeholder_query = []"
  by code_simp


subsection \<open>Request parameters of the service\<close>

text \<open>
  With \<open>filterParams\<close>, the two list operations hand on exactly the entries whose
  value is neither \<open>undefined\<close> nor \<open>null\<close>, in their order and unchanged.
\<close>

lemma filterParams_omits_absent:
  "filterParams None = None"
  "\<exists>p'. filterParams (Some p) = Some p' \<and> subseq p' p
        \<and> (\<forall>k v. (k, v) \<in> set p' \<longleftrightarrow> (k, v) \<in> set p \<and> v \<noteq> Undefined \<and> v \<noteq> Null)"
  by (auto simp: filterParams_def)

lemma getEvents_omits_absent:
  "params (getEvents apiUrl ps) = filterParams ps"
  "params (getEventsByMediaId apiUrl mediaId ps) = filterParams ps"
  by (simp_all add: getEvents_def getEventsByMediaId_def)

text \<open>
  C3 fails in \<open>frontend/src/app/services/events.service.ts\<close>. Called with
  \<open>{limit: 10, event_type: undefined}\<close>, its \<open>getEvents\<close> hands the key
  \<open>event_type\<close> on with the value \<open>undefined\<close>, and its \<open>getEventsByMediaId\<close> does the
  same with a \<open>null\<close>; the \<open>getEvents\<close> that goes through \<open>filterParams\<close> drops the key.
\<close>

theorem frontend_getEvents_keeps_undefined:
  "params (frontend_getEvents ''/api/v1/'' (Some [(''limit'', Num 10), (''event_type'', Undefined)]))
     = Some [(''limit'', Num 10), (''event_type'', Undefined)]
   \<and> params (frontend_getEventsByMediaId ''/api/v1/'' 7 (Some [(''limit'', Null)]))
     = Some [(''limit'', Null)]
   \<and> params (getEvents ''/api/v1/'' (Some [(''limit'', Num 10), (''event_type'', Undefined)]))
     = Some [(''limit'', Num 10)]"
  by (simp add: frontend_getEvents_def frontend_getEventsByMediaId_def getEvents_def
      filterParams_def)


subsection \<open>Navigation parameters\<close>

lemma EventType_values_nonempty: "t \<in> set EventType_values \<Longrightarrow> t \<noteq> []"
  by (auto simp: EventType_values_def EventType_defs)

text \<open>
  C4, as the code has it. The \<open>type\<close> parameter becomes the selected event type exactly
  when it is one of the seven known values; any other value leaves the selection as it
  was. The \<open>media_id\<close> parameter, numeric or not, becomes the search query and the value
  of the search form whenever it is a non-empty text; otherwise both stay as they were.
  With an absent or unknown \<open>type\<close> and an absent or empty \<open>media_id\<close> the state does
  not change at all. The source filter and the limit are never touched, and there is no
  error case.
\<close>

theorem queryParams_next_seeds:
  "selectedEventType (queryParams_next ps s) =
     (case ps ''type'' of
        None \<Rightarrow> selectedEventType s
      | Some t \<Rightarrow> if t \<in> set EventType_values then t else selectedEventType s)
   \<and> searchQuery (queryParams_next ps s) =
     (case ps ''media_id'' of
        None \<Rightarrow> searchQuery s
      | Some m \<Rightarrow> if m \<noteq> [] then m else searchQuery s)
   \<and> searchForm (queryParams_next ps s) =
     (case ps ''media_id'' of
        None \<Rightarrow> searchForm s
      | Some m \<Rightarrow> if m \<noteq> [] then Some m else searchForm s)
   \<and> ((ps ''type'' = None \<or> (\<exists>t. ps ''type'' = Some t \<and> t \<notin> set EventType_values))
        \<and> (ps ''media_id'' = None \<or> ps ''media_id'' = Some [])
      \<longrightarrow> queryParams_next ps s = s)
   \<and> selectedEventSource (queryParams_next ps s) = selectedEventSource s
   \<and> limit (queryParams_next ps s) = limit s"
  using EventType_values_nonempty
  by (auto simp: queryParams_next_def Let_def set_selectedEventType_def set_searchQuery_def
      resetDisplayCount_def split: option.splits)

theorem queryParams_next_seeds_witness:
  "queryParams_next [''type'' \<mapsto> ''trailer_renamed''] (initial []) = initial []
   \<and> selectedEventType (queryParams_next [''type'' \<mapsto> ''trailer_deleted''] (initial []))
        = ''trailer_deleted''
   \<and> searchQuery (queryParams_next [''media_id'' \<mapsto> ''42''] (initial [])) = ''42''
   \<and> searchForm (queryParams_next [''media_id'' \<mapsto> ''42''] (initial [])) = Some ''42''
   \<and> searchForm (queryParams_next [''media_id'' \<mapsto> ''abc''] (initial [])) = Some ''abc''
   \<and> searchForm (queryParams_next [''type'' \<mapsto> ''trailer_deleted''] (initial [])) = None"
  using queryParams_next_seeds [of "[''type'' \<mapsto> ''trailer_renamed'']" "initial []"]
    queryParams_next_seeds [of "[''type'' \<mapsto> ''trailer_deleted'']" "initial []"]
    queryParams_next_seeds [of "[''media_id'' \<mapsto> ''42'']" "initial []"]
    queryParams_next_seeds [of "[''media_id'' \<mapsto> ''abc'']" "initial []"]
  by (simp add: EventType_values_def EventType_defs) (simp add: initial_def)

text \<open>
  C4 as the claim states it fails: the non-numeric id \<open>abc\<close> is not ignored, it becomes
  the search query and the value of the search form.
\<close>

theorem queryParams_next_claim_counterexample:
  "\<not> spec_numeric ''abc''
   \<and> searchQuery (initial []) = []
   \<and> searchQuery (queryParams_next [''media_id'' \<mapsto> ''abc''] (initial [])) = ''abc''
   \<and> searchForm (queryParams_next [''media_id'' \<mapsto> ''abc''] (initial [])) = Some ''abc''"
  by (simp add: spec_numeric_def queryParams_next_def Let_def set_searchQuery_def
      resetDisplayCount_def initial_def)


subsection \<open>The display count and the rendered list\<close>

text \<open>
  C5, as the code has it. The inequality holds the other way round, in every state:
  the rendered list \<open>filteredEvents\<close> never has more than \<open>displayCount\<close> elements (nor
  more than were fetched); its length is the smaller of \<open>displayCount\<close> and the number of
  retained events.
\<close>

theorem filteredEvents_within_displayCount:
  "length (filteredEvents js s) \<le> displayCount s
   \<and> length (filteredEvents js s) \<le> length (allEvents s)
   \<and> length (filteredEvents js s)
       = min (displayCount s) (length (filter (retained js s) (allEvents s)))"
proof -
  have le: "length (filter (retained js s) (allEvents s)) \<le> length (allEvents s)"
    by (rule length_filter_le)
  have eq: "length (filteredEvents js s)
              = min (displayCount s) (length (filter (retained js s) (allEvents s)))"
    by (simp add: filteredEvents_filter)
  from le eq show ?thesis
    by linarith
qed

text \<open>
  C5 as the claim states it fails in the initial state, which is the state of the first
  rendering: \<open>displayCount\<close> is 50 and nothing has been fetched yet.
\<close>

theorem displayCount_claim_counterexample:
  "displayCount (initial []) = 50 \<and> length (filteredEvents ascii (initial [])) = 0
   \<and> \<not> displayCount (initial []) \<le> length (filteredEvents ascii (initial []))"
  by (simp add: initial_def filteredEvents_def Let_def ascii_def ascii_toLowerCase_def)


subsection \<open>Request parameters of the events page\<close>

text \<open>
  C6. In every filter state, no request parameter has the value \<open>all\<close>, \<open>undefined\<close> or
  \<open>null\<close>; the key \<open>event_type\<close> is present exactly when the selected type is not
  \<open>all\<close>, and then carries the selected type; the key \<open>event_source\<close> is present exactly
  when the selected source is not \<open>all\<close>, and then carries the selected source; \<open>limit\<close>
  is always present and carries the fetch limit; no key occurs twice.
\<close>

theorem allEvents_params_keys:
  "(\<forall>(k, v) \<in> set (allEvents_params s). v \<noteq> Str ''all'' \<and> v \<noteq> Undefined \<and> v \<noteq> Null)
   \<and> (''event_type'' \<in> fst ` set (allEvents_params s) \<longleftrightarrow> selectedEventType s \<noteq> ''all'')
   \<and> (''event_source'' \<in> fst ` set (allEvents_params s) \<longleftrightarrow> selectedEventSource s \<noteq> ''all'')
   \<and> map_of (allEvents_params s) ''limit'' = Some (Num (int (limit s)))
   \<and> (selectedEventType s \<noteq> ''all'' \<longrightarrow>
        map_of (allEvents_params s) ''event_type'' = Some (Str (selectedEventType s)))
   \<and> (selectedEventSource s \<noteq> ''all'' \<longrightarrow>
        map_of (allEvents_params s) ''event_source'' = Some (Str (selectedEventSource s)))
   \<and> distinct (map fst (allEvents_params s))"
  by (auto simp: allEvents_params_def)

theorem allEvents_params_keys_witness:
  "allEvents_params ((initial [])\<lparr>selectedEventType := ''trailer_deleted''\<rparr>)
     = [(''limit'', Num 500), (''event_type'', Str ''trailer_deleted'')]
   \<and> Str ''all'' \<notin> snd ` set (allEvents_params ((initial [])\<lparr>selectedEventType := ''trailer_deleted''\<rparr>))
   \<and> Undefined \<notin> snd ` set (allEvents_params ((initial [])\<lparr>selectedEventType := ''trailer_deleted''\<rparr>))
   \<and> ''event_type'' \<in> fst ` set (allEvents_params ((initial [])\<lparr>selectedEventType := ''trailer_deleted''\<rparr>))
   \<and> ''event_source'' \<notin> fst ` set (allEvents_params ((initial [])\<lparr>selectedEventType := ''trailer_deleted''\<rparr>))"
proof -
  have sel: "selectedEventType ((initial [])\<lparr>selectedEventType := ''trailer_deleted''\<rparr>) \<noteq> ''all''"
    "selectedEventSource ((initial [])\<lparr>selectedEventType := ''trailer_deleted''\<rparr>) = ''all''"
    by (simp_all add: initial_def)
  have "allEvents_params ((initial [])\<lparr>selectedEventType := ''trailer_deleted''\<rparr>)
     = [(''limit'', Num 500), (''event_type'', Str ''trailer_deleted'')]"
    by (simp add: allEvents_params_def initial_def)
  with sel allEvents_params_keys [of "(initial [])\<lparr>selectedEventType := ''trailer_deleted''\<rparr>"]
  show ?thesis by force
qed


subsection \<open>Resetting the display count\<close>

text \<open>
  C7. Setting the selected event type, the selected event source or the search query to
  a value different from the current one sets \<open>displayCount\<close> to 50. The same holds for
  the two places of the component that set them: a change of the search form's value,
  and the navigation parameters, whenever they change the query or the selected type.
\<close>

theorem filter_change_resets_displayCount:
  "(v \<noteq> selectedEventType s \<longrightarrow> displayCount (set_selectedEventType v s) = 50)
   \<and> (v \<noteq> selectedEventSource s \<longrightarrow> displayCount (set_selectedEventSource v s) = 50)
   \<and> (v \<noteq> searchQuery s \<longrightarrow> displayCount (set_searchQuery v s) = 50)
   \<and> (searchQuery (valueChanges_next w s) \<noteq> searchQuery s \<longrightarrow>
        displayCount (valueChanges_next w s) = 50)
   \<and> (searchQuery (queryParams_next ps s) \<noteq> searchQuery s
        \<or> selectedEventType (queryParams_next ps s) \<noteq> selectedEventType s \<longrightarrow>
        displayCount (queryParams_next ps s) = 50)"
  by (auto simp: set_selectedEventType_def set_selectedEventSource_def set_searchQuery_def
      valueChanges_next_def queryParams_next_def Let_def resetDisplayCount_def
      split: option.splits if_splits)

theorem filter_change_resets_displayCount_witness:
  "displayCount (loadMore full_window) = 80
   \<and> displayCount (set_selectedEventType ''trailer_deleted'' (loadMore full_window)) = 50
   \<and> displayCount (set_selectedEventSource ''user'' (loadMore full_window)) = 50
   \<and> displayCount (set_searchQuery ''dune'' (loadMore full_window)) = 50"
proof -
  have s: "selectedEventType (loadMore full_window) = ''all''"
    "selectedEventSource (loadMore full_window) = ''all''"
    "searchQuery (loadMore full_window) = ''zzz''"
    "displayCount (loadMore full_window) = 80"
    by (simp_all add: loadMore_def Let_def full_window_def initial_def)
  show ?thesis
    using filter_change_resets_displayCount [of "''trailer_deleted''" "loadMore full_window"]
      filter_change_resets_displayCount [of "''user''" "loadMore full_window"]
      filter_change_resets_displayCount [of "''dune''" "loadMore full_window"]
    by (simp add: s)
qed


subsection \<open>Descriptions on the media page\<close>

text \<open>
  C8, as the code has it. For \<open>media_added\<close> the description of the media page is the
  fixed sentence \<open>Media was added to the library\<close>; for every other event type, known
  or not, it is the string of the specification's table. In particular
  \<open>monitor_changed\<close> from \<open>true\<close> to \<open>false\<close> gives \<open>Monitoring disabled\<close>, from
  \<open>false\<close> to \<open>true\<close> gives \<open>Monitoring enabled\<close>, \<open>youtube_id_changed\<close> with an empty old
  and a set new value gives \<open>YouTube ID set to\<close> followed by the new value, and an event
  type outside the enum gives the empty string.
\<close>

theorem MediaEvents_description_table:
  "MediaEventsComponent_getEventDescription e =
     (if event_type e = ''media_added'' then ''Media was added to the library''
      else spec_description e)
   \<and> (event_type e = ''monitor_changed'' \<and> old_value e = Some ''true''
        \<and> new_value e = Some ''false''
      \<longrightarrow> MediaEventsComponent_getEventDescription e = ''Monitoring disabled'')
   \<and> (event_type e = ''monitor_changed'' \<and> old_value e = Some ''false''
        \<and> new_value e = Some ''true''
      \<longrightarrow> MediaEventsComponent_getEventDescription e = ''Monitoring enabled'')
   \<and> (event_type e = ''youtube_id_changed'' \<and> \<not> truthy (old_value e) \<and> new_value e = Some n
        \<and> n \<noteq> []
      \<longrightarrow> MediaEventsComponent_getEventDescription e = ''YouTube ID set to '' @ n)
   \<and> (event_type e \<notin> set EventType_values
      \<longrightarrow> MediaEventsComponent_getEventDescription e = [])"
  by (simp add: MediaEventsComponent_getEventDescription_def spec_description_def Let_def
      EventType_defs EventType_values_def or_else_def truthy_def render_def
      split: option.splits)

theorem MediaEvents_description_table_witness:
  "MediaEventsComponent_getEventDescription (sample_event 1 ''monitor_changed'' (Some ''true'') (Some ''false''))
     = ''Monitoring disabled''
   \<and> MediaEventsComponent_getEventDescription (sample_event 2 ''monitor_changed'' (Some ''false'') (Some ''true''))
     = ''Monitoring enabled''
   \<and> MediaEventsComponent_getEventDescription (sample_event 3 ''youtube_id_changed'' None (Some ''xyz''))
     = ''YouTube ID set to xyz''
   \<and> MediaEventsComponent_getEventDescription (sample_event 4 ''trailer_renamed'' None (Some ''xyz'')) = []
   \<and> MediaEventsComponent_getEventDescription (sample_event 5 ''media_added'' None (Some ''Radarr''))
     = ''Media was added to the library''"
  using MediaEvents_description_table [of "sample_event 1 ''monitor_changed'' (Some ''true'') (Some ''false'')"]
    MediaEvents_description_table [of "sample_event 2 ''monitor_changed'' (Some ''false'') (Some ''true'')"]
    MediaEvents_description_table [of "sample_event 3 ''youtube_id_changed'' None (Some ''xyz'')"]
    MediaEvents_description_table [of "sample_event 4 ''trailer_renamed'' None (Some ''xyz'')"]
    MediaEvents_description_table [of "sample_event 5 ''media_added'' None (Some ''Radarr'')"]
  by (simp add: sample_event_def spec_description_def Let_def truthy_def render_def)

text \<open>
  C8 as the claim states it fails on \<open>media_added\<close>: the table prescribes
  \<open>Added from Radarr\<close>, which is the sentence of the all-events page, and the media page
  returns its own sentence.
\<close>

theorem MediaEvents_description_claim_counterexample:
  "spec_description (sample_event 5 ''media_added'' None (Some ''Radarr'')) = ''Added from Radarr''
   \<and> MediaEventsComponent_getEventDescription (sample_event 5 ''media_added'' None (Some ''Radarr''))
     = ''Media was added to the library''"
  by (simp add: sample_event_def spec_description_def Let_def render_def
      MediaEventsComponent_getEventDescription_def EventType_defs)


subsection \<open>Icons\<close>

text \<open>
  C9. \<open>getEventIcon\<close> returns the icon of the mapping table for each of the seven event
  types, and \<open>info\<close> for every string that is none of them.
\<close>

theorem getEventIcon_table:
  "getEventIcon ''media_added'' = ''add_circle''
   \<and> getEventIcon ''monitor_changed'' = ''visibility''
   \<and> getEventIcon ''youtube_id_changed'' = ''link''
   \<and> getEventIcon ''trailer_detected'' = ''search''
   \<and> getEventIcon ''trailer_downloaded'' = ''download''
   \<and> getEventIcon ''trailer_deleted'' = ''delete''
   \<and> getEventIcon ''download_skipped'' = ''block''
   \<and> (t \<notin> set EventType_values \<longrightarrow> getEventIcon t = ''info'')"
  by (simp add: getEventIcon_def EventType_values_def EventType_defs)

theorem getEventIcon_table_witness:
  "''trailer_renamed'' \<notin> set EventType_values \<and> getEventIcon ''trailer_renamed'' = ''info''"
  using getEventIcon_table [of "''trailer_renamed''"]
  by (simp add: EventType_values_def EventType_defs)


subsection \<open>Titles\<close>

lemma titled_map:
  "mediaTitlesMap titled 1 = Some ''Dune''" "mediaTitlesMap titled 2 = Some []"
  "mediaTitlesMap titled 3 = None"
  by (simp_all add: titled_def initial_def mediaTitlesMap_def)

lemma number_toString_small: "number_toString 2 = ''2''" "number_toString 3 = ''3''"
  by code_simp+

text \<open>
  C10. \<open>getMediaTitle\<close> returns the placeholder \<open>Media #\<close> followed by the id when the
  map has no entry for the id, and also when the map binds the id to the empty string;
  when the map binds the id to a title, that title is returned exactly when it is not
  empty.
\<close>

theorem getMediaTitle_fallback:
  "(mediaTitlesMap s i = None \<longrightarrow> getMediaTitle s i = ''Media #'' @ number_toString i)
   \<and> (mediaTitlesMap s i = Some [] \<longrightarrow> getMediaTitle s i = ''Media #'' @ number_toString i)
   \<and> (\<forall>t. mediaTitlesMap s i = Some t \<longrightarrow> (getMediaTitle s i = t \<longleftrightarrow> t \<noteq> []))"
  by (auto simp: getMediaTitle_def or_else_def)

theorem getMediaTitle_fallback_witness:
  "mediaTitlesMap titled 3 = None \<and> getMediaTitle titled 3 = ''Media #3''
   \<and> mediaTitlesMap titled 2 = Some [] \<and> getMediaTitle titled 2 = ''Media #2''
   \<and> mediaTitlesMap titled 1 = Some ''Dune'' \<and> getMediaTitle titled 1 = ''Dune''"
  using getMediaTitle_fallback [of titled 3] getMediaTitle_fallback [of titled 2]
    getMediaTitle_fallback [of titled 1]
  by (simp add: titled_map number_toString_small)

end
